theory Spec2Isabelle
  imports Main "HOL-Library.Word" "HOL-Library.Char_ord" "HOL-Library.List_Lexorder"
    "HOL-Library.Multiset"
begin

section \<open>Data model\<close>

text \<open>
  The records come from the DNS library the program is built on. A resource record
  is an interface value there: a header (name, type, class, TTL), a dynamic type that
  carries the payload, and a method \<open>String\<close> giving its canonical line. The model keeps
  the header fields, the payload of the two record kinds the program inspects (the
  address of an A record, the preference and exchange of an MX record), and the
  canonical line as a field of its own, since the program only ever consumes it.
  Go strings are byte sequences; they are lists of 8-bit characters here, compared
  bytewise (the order of \<open>Char_ord\<close> lifted to lists by \<open>List_Lexorder\<close>).
\<close>

type_synonym byte = "8 word"
type_synonym uint16 = "16 word"
type_synonym uint32 = "32 word"

record RR_Header =
  Name :: string
  Rrtype :: uint16
  Class :: uint16
  Ttl :: uint32

datatype rdata =
    A_data "byte list"
  | MX_data uint16 string
  | Other_data

record RR =
  Hdr :: RR_Header
  Data :: rdata
  String :: string

record zoneGenData =
  Origin :: string
  DefaultTtl :: uint32
  Records :: "RR list"

text \<open>
  How a run ends without returning: \<open>log.Fatalf\<close> terminates the process, a failed type
  assertion or an index out of range panics.
\<close>

datatype error =
    Fatal_IPs_not_4_bytes
  | Fatal_Too_few_items string
  | Fatal_Unimplemented_class string
  | Panic_type_assertion
  | Panic_index_out_of_range

definition TypeA :: uint16 where "TypeA = 1"
definition TypeNS :: uint16 where "TypeNS = 2"
definition TypeSOA :: uint16 where "TypeSOA = 6"
definition TypeMX :: uint16 where "TypeMX = 15"
definition ClassINET :: uint16 where "ClassINET = 1"

section \<open>Library functions the program calls\<close>

text \<open>\<open>strings.Split\<close> with a one-byte separator: always at least one component.\<close>

fun Split :: "string \<Rightarrow> char \<Rightarrow> string list" where
  "Split [] sep = [[]]"
| "Split (c # cs) sep =
     (if c = sep then [] # Split cs sep
      else (case Split cs sep of
              [] \<Rightarrow> [[c]]
            | p # ps \<Rightarrow> (c # p) # ps))"

text \<open>\<open>strings.SplitN\<close>: at most \<open>n\<close> components, the last one the unsplit remainder.\<close>

fun SplitN :: "string \<Rightarrow> char \<Rightarrow> nat \<Rightarrow> string list" where
  "SplitN s sep 0 = []"
| "SplitN s sep (Suc 0) = [s]"
| "SplitN [] sep (Suc (Suc n)) = [[]]"
| "SplitN (c # cs) sep (Suc (Suc n)) =
     (if c = sep then [] # SplitN cs sep (Suc n)
      else (case SplitN cs sep (Suc (Suc n)) of
              [] \<Rightarrow> [[c]]
            | p # ps \<Rightarrow> (c # p) # ps))"

text \<open>\<open>dns.IsFqdn\<close> and \<open>dnsutil.AddOrigin\<close>.\<close>

definition IsFqdn :: "string \<Rightarrow> bool" where
  "IsFqdn s = (if length s = 0 then False else last s = CHR ''.'')"

definition AddOrigin :: "string \<Rightarrow> string \<Rightarrow> string" where
  "AddOrigin s origin =
     (if IsFqdn s then s
      else if length origin = 0 then s
      else if s = ''@'' \<or> length s = 0 then origin
      else if origin = ''.'' then s @ origin
      else s @ ''.'' @ origin)"

text \<open>\<open>net.IP.To4\<close>: the 4-byte form of an address, or nil.\<close>

definition To4 :: "byte list \<Rightarrow> byte list option" where
  "To4 ip =
     (if length ip = 4 then Some ip
      else if length ip = 16 \<and> take 10 ip = replicate 10 0
              \<and> ip ! 10 = 0xff \<and> ip ! 11 = 0xff
        then Some (drop 12 ip)
      else None)"

text \<open>\<open>bytes.Compare\<close>: lexicographic on unsigned bytes, giving -1, 0 or 1.\<close>

fun bytes_Compare :: "byte list \<Rightarrow> byte list \<Rightarrow> int" where
  "bytes_Compare [] [] = 0"
| "bytes_Compare [] (y # ys) = - 1"
| "bytes_Compare (x # xs) [] = 1"
| "bytes_Compare (x # xs) (y # ys) =
     (if x < y then - 1 else if y < x then 1 else bytes_Compare xs ys)"

section \<open>The comparator\<close>

text \<open>
  The loop of \<open>zoneLabelLess\<close>: \<open>i\<close> and \<open>j\<close> walk both component slices from their last
  index down while \<open>min\<close> counts the pairs left. \<open>None\<close> means the loop ran out without
  finding a differing pair. Both indices stay in range: \<open>min \<le> i\<close> and \<open>min \<le> j\<close>.
\<close>

function zoneLabelLess_loop ::
  "string list \<Rightarrow> string list \<Rightarrow> int \<Rightarrow> int \<Rightarrow> int \<Rightarrow> bool option" where
  "zoneLabelLess_loop asl bsl i j min' =
     (if min' \<ge> 0 then
        (if asl ! nat i \<noteq> bsl ! nat j then Some (asl ! nat i < bsl ! nat j)
         else zoneLabelLess_loop asl bsl (i - 1) (j - 1) (min' - 1))
      else None)"
  by pat_completeness auto
termination
  by (relation "measure (\<lambda>(asl, bsl, i, j, min'). nat (min' + 1))") auto

declare zoneLabelLess_loop.simps [simp del]

definition zoneLabelLess :: "string \<Rightarrow> string \<Rightarrow> bool" where
  "zoneLabelLess a b =
     (if a = b then False
      else if a = ''@'' then True
      else if b = ''@'' then False
      else if a = ''*'' then True
      else if b = ''*'' then False
      else
        (let asl = Split a CHR ''.'';
             bsl = Split b CHR ''.'';
             ia = int (length asl) - 1;
             ib = int (length bsl) - 1;
             min' = (if ia < ib then int (length asl) - 1 else int (length bsl) - 1)
         in case zoneLabelLess_loop asl bsl ia ib min' of
              Some r \<Rightarrow> r
            | None \<Rightarrow> ia < ib))"

definition zoneRrtypeLess :: "uint16 \<Rightarrow> uint16 \<Rightarrow> bool" where
  "zoneRrtypeLess a b =
     (if a = b then False
      else if a = TypeSOA then True
      else if b = TypeSOA then False
      else if a = TypeNS then True
      else if b = TypeNS then False
      else a < b)"

text \<open>
  The body of \<open>Less\<close> on the two records it reads. The type assertions \<open>a.(*dns.A)\<close> and
  \<open>a.(*dns.MX)\<close> panic when the dynamic type is another one than the header announces.
\<close>

definition Less_records :: "string \<Rightarrow> RR \<Rightarrow> RR \<Rightarrow> error + bool" where
  "Less_records origin a b =
     (let compA = AddOrigin (Name (Hdr a)) (origin @ ''.'');
          compB = AddOrigin (Name (Hdr b)) (origin @ ''.'')
      in if compA \<noteq> compB then
           (let compA' = (if compA = origin @ ''.'' then ''@'' else compA);
                compB' = (if compB = origin @ ''.'' then ''@'' else compB)
            in Inr (zoneLabelLess compA' compB'))
         else
           (let rrtypeA = Rrtype (Hdr a); rrtypeB = Rrtype (Hdr b)
            in if rrtypeA \<noteq> rrtypeB then Inr (zoneRrtypeLess rrtypeA rrtypeB)
               else if rrtypeA = TypeA then
                 (case Data a of
                    A_data ta2 \<Rightarrow>
                      (case Data b of
                         A_data tb2 \<Rightarrow>
                           (case To4 ta2 of
                              None \<Rightarrow> Inl Fatal_IPs_not_4_bytes
                            | Some ipa \<Rightarrow>
                                (case To4 tb2 of
                                   None \<Rightarrow> Inl Fatal_IPs_not_4_bytes
                                 | Some ipb \<Rightarrow> Inr (bytes_Compare ipa ipb = - 1)))
                       | _ \<Rightarrow> Inl Panic_type_assertion)
                  | _ \<Rightarrow> Inl Panic_type_assertion)
               else if rrtypeA = TypeMX then
                 (case Data a of
                    MX_data pa ma \<Rightarrow>
                      (case Data b of
                         MX_data pb mb \<Rightarrow> Inr (pa < pb)
                       | _ \<Rightarrow> Inl Panic_type_assertion)
                  | _ \<Rightarrow> Inl Panic_type_assertion)
               else Inr (String a < String b)))"

definition Len :: "zoneGenData \<Rightarrow> nat" where
  "Len z = length (Records z)"

definition Swap :: "zoneGenData \<Rightarrow> nat \<Rightarrow> nat \<Rightarrow> zoneGenData" where
  "Swap z i j = z\<lparr>Records := (Records z)[i := Records z ! j, j := Records z ! i]\<rparr>"

definition Less :: "zoneGenData \<Rightarrow> nat \<Rightarrow> nat \<Rightarrow> error + bool" where
  "Less z i j =
     (if i < length (Records z) \<and> j < length (Records z)
      then Less_records (Origin z) (Records z ! i) (Records z ! j)
      else Inl Panic_index_out_of_range)"

section \<open>Sorting\<close>

text \<open>
  \<open>sort.Sort\<close> belongs to the standard library. It reaches the records only through
  \<open>Len\<close>, \<open>Less\<close> and \<open>Swap\<close>, it is documented as not stable, and on short slices it
  is the insertion sort below, which is the model taken here. A failing \<open>Less\<close> ends the
  sort, and the run.
\<close>

function insertionSort_inner :: "zoneGenData \<Rightarrow> nat \<Rightarrow> nat \<Rightarrow> error + zoneGenData" where
  "insertionSort_inner data a j =
     (if j > a then
        (case Less data j (j - 1) of
           Inl e \<Rightarrow> Inl e
         | Inr lt \<Rightarrow>
             (if lt then insertionSort_inner (Swap data j (j - 1)) a (j - 1)
              else Inr data))
      else Inr data)"
  by pat_completeness auto
termination
  by (relation "measure (\<lambda>(data, a, j). j)") auto

declare insertionSort_inner.simps [simp del]

function insertionSort_outer ::
  "zoneGenData \<Rightarrow> nat \<Rightarrow> nat \<Rightarrow> nat \<Rightarrow> error + zoneGenData" where
  "insertionSort_outer data a b i =
     (if i < b then
        (case insertionSort_inner data a i of
           Inl e \<Rightarrow> Inl e
         | Inr data' \<Rightarrow> insertionSort_outer data' a b (i + 1))
      else Inr data)"
  by pat_completeness auto
termination
  by (relation "measure (\<lambda>(data, a, b, i). b - i)") auto

declare insertionSort_outer.simps [simp del]

definition insertionSort :: "zoneGenData \<Rightarrow> nat \<Rightarrow> nat \<Rightarrow> error + zoneGenData" where
  "insertionSort data a b = insertionSort_outer data a b (a + 1)"

definition Sort :: "zoneGenData \<Rightarrow> error + zoneGenData" where
  "Sort data = (let n = Len data in insertionSort data 0 n)"

section \<open>Rendering\<close>

text \<open>
  The sink \<open>w\<close> is the text written so far. \<open>fmt.Fprintln\<close> appends its operands,
  separated by spaces, and a newline; write errors are ignored by the program.
\<close>

definition Fprintln :: "string \<Rightarrow> string list \<Rightarrow> string" where
  "Fprintln w operands =
     w @ concat (case operands of [] \<Rightarrow> [] | x # xs \<Rightarrow> x # map (\<lambda>y. '' '' @ y) xs)
       @ [CHR 0x0A]"

function FormatUint :: "nat \<Rightarrow> string" where
  "FormatUint n =
     (if n < 10 then [char_of (48 + n)]
      else FormatUint (n div 10) @ [char_of (48 + n mod 10)])"
  by pat_completeness auto
termination
  by (relation "measure (\<lambda>n. n)") auto

declare FormatUint.simps [simp del]

definition TrimRight :: "string \<Rightarrow> char \<Rightarrow> string" where
  "TrimRight s c = rev (dropWhile (\<lambda>x. x = c) (rev s))"

function formatLine_pad :: "string \<Rightarrow> int \<Rightarrow> string" where
  "formatLine_pad result c =
     (if int (length result) < c then formatLine_pad (result @ '' '') c else result)"
  by pat_completeness auto
termination
  by (relation "measure (\<lambda>(result, c). nat (c - int (length result)))") auto

declare formatLine_pad.simps [simp del]

text \<open>
  The loop of \<open>formatLine\<close> over \<open>lengths\<close>; \<open>fields[i]\<close> panics when there are fewer
  fields than lengths.
\<close>

fun formatLine_loop :: "int list \<Rightarrow> string list \<Rightarrow> int \<Rightarrow> string \<Rightarrow> error + string" where
  "formatLine_loop [] fields' c result = Inr result"
| "formatLine_loop (len # lengths) [] c result = Inl Panic_index_out_of_range"
| "formatLine_loop (len # lengths) (item # fields') c result =
     (let result1 = formatLine_pad result c;
          result2 = (if item \<noteq> [] then result1 @ item @ '' '' else result1)
      in formatLine_loop lengths fields' (c + (len + 1)) result2)"

definition formatLine :: "int list \<Rightarrow> string list \<Rightarrow> error + string" where
  "formatLine lengths fields' =
     (case formatLine_loop lengths fields' 0 [] of
        Inl e \<Rightarrow> Inl e
      | Inr result \<Rightarrow> Inr (TrimRight result CHR '' ''))"

text \<open>
  Two parts of the DNS library are taken as given: the table \<open>dns.TypeToString\<close> and
  the function \<open>dnsutil.TrimDomainName\<close>, which gives the name relative to the origin.
\<close>

record dnslib =
  TypeToString :: "uint16 \<Rightarrow> string"
  TrimDomainName :: "string \<Rightarrow> string \<Rightarrow> string"

text \<open>
  One pass through the body of the loop of \<open>generateZoneFileHelper\<close>, for the record
  \<open>rr\<close> at index \<open>i\<close>: the record is skipped (\<open>continue\<close>), the run dies, or a line is
  written and \<open>nameShortPrevious\<close> becomes the record's relative name.
\<close>

datatype step =
    Skipped
  | Died error
  | Written string string

definition generateZoneFileHelper_body ::
  "dnslib \<Rightarrow> zoneGenData \<Rightarrow> nat \<Rightarrow> string \<Rightarrow> RR \<Rightarrow> step" where
  "generateZoneFileHelper_body lib z i nameShortPrevious rr =
     (let line = String rr in
      if line = [] then Died Panic_index_out_of_range
      else if hd line = CHR '';'' then Skipped
      else
        (let hdr = Hdr rr;
             items = SplitN line (CHR 0x09) 5
         in if length items < 5 then Died (Fatal_Too_few_items line)
            else
              (let nameFqdn = Name hdr;
                   nameShort = TrimDomainName lib nameFqdn (Origin z);
                   name = (if i > 0 \<and> nameShort = nameShortPrevious then [] else nameShort);
                   ttl = (if Ttl hdr \<noteq> DefaultTtl z \<and> Ttl hdr \<noteq> 0 then items ! 1 else [])
               in if Class hdr \<noteq> ClassINET
                  then Died (Fatal_Unimplemented_class (items ! 2))
                  else
                    (let typeStr = TypeToString lib (Rrtype hdr);
                         target = items ! 4
                     in case formatLine [10, 5, 2, 5, 0] [name, ttl, ''IN'', typeStr, target] of
                          Inl e \<Rightarrow> Died e
                        | Inr l \<Rightarrow> Written nameShort l))))"

text \<open>
  The loop over the sorted records. It carries the index \<open>i\<close>, \<open>nameShortPrevious\<close> and
  the sink; it stops at the first fatal call or panic, leaving in the sink what was
  written before.
\<close>

fun generateZoneFileHelper_loop ::
  "dnslib \<Rightarrow> zoneGenData \<Rightarrow> RR list \<Rightarrow> nat \<Rightarrow> string \<Rightarrow> string \<Rightarrow> string \<times> (error + unit)" where
  "generateZoneFileHelper_loop lib z [] i nameShortPrevious w = (w, Inr ())"
| "generateZoneFileHelper_loop lib z (rr # rrs) i nameShortPrevious w =
     (case generateZoneFileHelper_body lib z i nameShortPrevious rr of
        Skipped \<Rightarrow> generateZoneFileHelper_loop lib z rrs (i + 1) nameShortPrevious w
      | Died e \<Rightarrow> (w, Inl e)
      | Written nameShort l \<Rightarrow>
          generateZoneFileHelper_loop lib z rrs (i + 1) nameShort (Fprintln w [l]))"

text \<open>
  The result of a run: the sink, and either how the run died or the error value
  returned (\<open>None\<close> is Go's nil).
\<close>

type_synonym go_error = string

definition generateZoneFileHelper ::
  "dnslib \<Rightarrow> zoneGenData \<Rightarrow> string \<Rightarrow> string \<times> (error + go_error option)" where
  "generateZoneFileHelper lib z w =
     (case Sort z of
        Inl e \<Rightarrow> (w, Inl e)
      | Inr z' \<Rightarrow>
          (let w1 = Fprintln w [''$TTL'', FormatUint (unat (DefaultTtl z'))]
           in case generateZoneFileHelper_loop lib z' (Records z') 0 [] w1 of
                (w2, Inl e) \<Rightarrow> (w2, Inl e)
              | (w2, Inr u) \<Rightarrow> (w2, Inr None)))"

definition WriteZoneFile ::
  "dnslib \<Rightarrow> string \<Rightarrow> RR list \<Rightarrow> string \<Rightarrow> uint32 \<Rightarrow> string \<times> (error + go_error option)" where
  "WriteZoneFile lib w records origin defaultTtl =
     (let z = \<lparr>Origin = origin, DefaultTtl = defaultTtl, Records = []\<rparr>;
          z = foldl (\<lambda>z r. z\<lparr>Records := Records z @ [r]\<rparr>) z records
      in generateZoneFileHelper lib z w)"

section \<open>The label order as the specification words it\<close>

text \<open>
  The first pair of components that differs, reading two component lists from their
  heads, and how it compares; \<open>None\<close> when one list runs out first.
\<close>

fun first_difference :: "string list \<Rightarrow> string list \<Rightarrow> bool option" where
  "first_difference (x # xs) (y # ys) =
     (if x \<noteq> y then Some (x < y) else first_difference xs ys)"
| "first_difference xs ys = None"

text \<open>
  The rule of the specification on two component lists given rightmost component
  first: the first differing pair decides by string comparison; when all compared
  pairs are equal the list with fewer components is the smaller one.
\<close>

fun components_less :: "string list \<Rightarrow> string list \<Rightarrow> bool" where
  "components_less [] [] = False"
| "components_less [] (y # ys) = True"
| "components_less (x # xs) [] = False"
| "components_less (x # xs) (y # ys) = (if x \<noteq> y then x < y else components_less xs ys)"

definition labelLess_spec :: "string \<Rightarrow> string \<Rightarrow> bool" where
  "labelLess_spec a b = components_less (rev (Split a CHR ''.'')) (rev (Split b CHR ''.''))"

section \<open>The label order\<close>

lemma loop_first_difference:
  "\<lbrakk>- 1 \<le> i; i < int (length asl); - 1 \<le> j; j < int (length bsl); m = min i j\<rbrakk>
   \<Longrightarrow> zoneLabelLess_loop asl bsl i j m
       = first_difference (rev (take (nat (i + 1)) asl)) (rev (take (nat (j + 1)) bsl))"
proof (induction asl bsl i j m rule: zoneLabelLess_loop.induct)
  case (1 asl bsl i j m)
  show ?case
  proof (cases "m \<ge> 0")
    case True
    with "1.prems" have ij: "0 \<le> i" "0 \<le> j" by auto
    have ta: "take (nat (i + 1)) asl = take (nat i) asl @ [asl ! nat i]"
      using ij "1.prems" by (simp add: nat_add_distrib take_Suc_conv_app_nth)
    have tb: "take (nat (j + 1)) bsl = take (nat j) bsl @ [bsl ! nat j]"
      using ij "1.prems" by (simp add: nat_add_distrib take_Suc_conv_app_nth)
    show ?thesis
    proof (cases "asl ! nat i \<noteq> bsl ! nat j")
      case True
      with \<open>m \<ge> 0\<close> show ?thesis
        by (subst zoneLabelLess_loop.simps) (simp add: ta tb)
    next
      case False
      have eq: "\<not> asl ! nat i \<noteq> bsl ! nat j" using False by simp
      have p1: "- 1 \<le> i - 1" "i - 1 < int (length asl)" "- 1 \<le> j - 1" "j - 1 < int (length bsl)"
        using ij "1.prems" by linarith+
      have p2: "m - 1 = min (i - 1) (j - 1)" using "1.prems"(5) by linarith
      have "zoneLabelLess_loop asl bsl (i - 1) (j - 1) (m - 1)
            = first_difference (rev (take (nat (i - 1 + 1)) asl)) (rev (take (nat (j - 1 + 1)) bsl))"
        by (rule "1.IH"[OF \<open>m \<ge> 0\<close> eq p1 p2])
      then have IH: "zoneLabelLess_loop asl bsl (i - 1) (j - 1) (m - 1)
            = first_difference (rev (take (nat i) asl)) (rev (take (nat j) bsl))"
        by simp
      show ?thesis
        using False \<open>m \<ge> 0\<close> IH
        by (subst zoneLabelLess_loop.simps) (simp add: ta tb)
    qed
  next
    case False
    with "1.prems" have "i = - 1 \<or> j = - 1" by auto
    then have "first_difference (rev (take (nat (i + 1)) asl)) (rev (take (nat (j + 1)) bsl)) = None"
      by auto
    with False show ?thesis
      by (subst zoneLabelLess_loop.simps) simp
  qed
qed

lemma first_difference_components_less:
  "(case first_difference xs ys of Some r \<Rightarrow> r | None \<Rightarrow> length xs < length ys)
   = components_less xs ys"
  by (induction xs ys rule: components_less.induct) (auto split: option.splits)

lemma components_less_iff: "components_less xs ys \<longleftrightarrow> xs < ys"
  by (induction xs ys rule: components_less.induct) auto

lemma Split_not_Nil: "Split s c \<noteq> []"
  by (induction s) (auto split: list.splits)

text \<open>
  Claim C5. For two distinct labels, neither of them \<open>@\<close> or \<open>*\<close>, \<open>zoneLabelLess\<close> splits
  both on the dot and compares the components from the rightmost one leftwards: the
  first pair that differs decides by plain string comparison, and when every compared
  pair is equal the label with fewer components is the smaller one.
\<close>

theorem zoneLabelLess_componentwise:
  assumes "a \<noteq> b" "a \<noteq> ''@''" "b \<noteq> ''@''" "a \<noteq> ''*''" "b \<noteq> ''*''"
  shows "zoneLabelLess a b = labelLess_spec a b"
proof -
  let ?as = "Split a CHR ''.''" and ?bs = "Split b CHR ''.''"
  have la: "0 < length ?as" and lb: "0 < length ?bs"
    using Split_not_Nil by auto
  have m: "(if int (length ?as) - 1 < int (length ?bs) - 1 then int (length ?as) - 1 else int (length ?bs) - 1)
         = min (int (length ?as) - 1) (int (length ?bs) - 1)" by auto
  have "zoneLabelLess_loop ?as ?bs (int (length ?as) - 1) (int (length ?bs) - 1)
          (min (int (length ?as) - 1) (int (length ?bs) - 1))
        = first_difference (rev ?as) (rev ?bs)"
    using loop_first_difference[of "int (length ?as) - 1" ?as "int (length ?bs) - 1" ?bs] la lb
    by simp
  then show ?thesis
    using assms first_difference_components_less[of "rev ?as" "rev ?bs"]
    unfolding zoneLabelLess_def labelLess_spec_def Let_def m
    by (auto split: option.splits)
qed

theorem zoneLabelLess_componentwise_witness:
  "zoneLabelLess ''b'' ''a.b'' = labelLess_spec ''b'' ''a.b'' \<and> labelLess_spec ''b'' ''a.b''
   \<and> zoneLabelLess ''www.example.com.'' ''mail.example.com.''
       = labelLess_spec ''www.example.com.'' ''mail.example.com.''
   \<and> \<not> labelLess_spec ''www.example.com.'' ''mail.example.com.''"
  using zoneLabelLess_componentwise [of "''b''" "''a.b''"]
    zoneLabelLess_componentwise [of "''www.example.com.''" "''mail.example.com.''"]
  by (simp add: labelLess_spec_def)

end
